theory Spec2Isabelle
  imports Complex_Main
begin

section \<open>The JavaScript primitives the component calls\<close>

text \<open>
  The calculator component stores its left operand as a JavaScript \<open>number\<close>, reads the
  display with \<open>Number.parseFloat\<close> and writes results back with \<open>String(result)\<close>.
  A \<open>number\<close> is a binary64 value: not-a-number, a signed infinity, or a signed finite
  value. A finite value is kept as its sign (\<open>True\<close> for negative) and its magnitude, an
  exact rational, so that the two zeros are distinct values.
\<close>

datatype number = NaN | Infinity bool | Finite bool rat

function ipow :: "rat \<Rightarrow> int \<Rightarrow> rat" where
  "ipow b e =
     (if e \<le> 0 then 1
      else if even e then (let h = ipow b (e div 2) in h * h)
      else b * ipow b (e - 1))"
  by pat_completeness auto
termination
  by (relation "measure (\<lambda>(b, e). nat e)") auto

definition pow :: "rat \<Rightarrow> int \<Rightarrow> rat" where
  "pow b e = (if 0 \<le> e then ipow b e else 1 / ipow b (- e))"

text \<open>\<open>digits_in b n\<close> is the number of base-\<open>b\<close> digits of a positive integer.\<close>

function digits_in :: "int \<Rightarrow> int \<Rightarrow> int" where
  "digits_in b n = (if n \<le> 0 \<or> b \<le> 1 then 0 else 1 + digits_in b (n div b))"
  by pat_completeness auto
termination
  by (relation "measure (\<lambda>(b, n). nat n)") (auto simp: int_div_less_self)

text \<open>\<open>ilog b x\<close> is the exponent \<open>e\<close> with \<open>b ^ e \<le> x < b ^ (e + 1)\<close>, for positive \<open>x\<close>.\<close>

definition ilog :: "int \<Rightarrow> rat \<Rightarrow> int" where
  "ilog b x =
     (let (p, q) = quotient_of x;
          d = digits_in b p - digits_in b q
      in if pow (of_int b) d \<le> x then d else d - 1)"

definition round_half_even :: "rat \<Rightarrow> int" where
  "round_half_even r =
     (let f = \<lfloor>r\<rfloor>; d = r - of_int f
      in if d < 1 / 2 then f else if 1 / 2 < d then f + 1
         else if even f then f else f + 1)"

text \<open>
  Rounding of a non-negative real to binary64, to nearest with ties to even: 53 significant
  bits and the least exponent \<open>-1074\<close> for the last place. The result overflows
  (\<open>None\<close>) when it reaches \<open>2 ^ 1024\<close>: the last place is above \<open>2 ^ 971\<close>, or it is
  \<open>2 ^ 971\<close> and the significand has rounded up to \<open>2 ^ 53 = 9007199254740992\<close>.
\<close>

definition round_binary64 :: "rat \<Rightarrow> rat option" where
  "round_binary64 a =
     (if a = 0 then Some 0
      else let e = max (ilog 2 a - 52) (- 1074);
               u = pow 2 e;
               m = round_half_even (a / u)
           in if 971 < e \<or> (e = 971 \<and> 9007199254740992 \<le> m) then None
              else Some (of_int m * u))"

definition to_number :: "bool \<Rightarrow> rat \<Rightarrow> number" where
  "to_number s a = (case round_binary64 a of None \<Rightarrow> Infinity s | Some v \<Rightarrow> Finite s v)"

subsection \<open>Arithmetic on numbers\<close>

fun negate :: "number \<Rightarrow> number" where
  "negate NaN = NaN"
| "negate (Infinity s) = Infinity (\<not> s)"
| "negate (Finite s m) = Finite (\<not> s) m"

definition signed :: "bool \<Rightarrow> rat \<Rightarrow> rat" where
  "signed s m = (if s then - m else m)"

fun js_add :: "number \<Rightarrow> number \<Rightarrow> number" where
  "js_add NaN y = NaN"
| "js_add x NaN = NaN"
| "js_add (Infinity s) (Infinity t) = (if s = t then Infinity s else NaN)"
| "js_add (Infinity s) (Finite t b) = Infinity s"
| "js_add (Finite s a) (Infinity t) = Infinity t"
| "js_add (Finite s a) (Finite t b) =
     (let r = signed s a + signed t b
      in if r = 0 then Finite (s \<and> t) 0 else to_number (r < 0) \<bar>r\<bar>)"

definition js_sub :: "number \<Rightarrow> number \<Rightarrow> number" where
  "js_sub x y = js_add x (negate y)"

fun js_mul :: "number \<Rightarrow> number \<Rightarrow> number" where
  "js_mul NaN y = NaN"
| "js_mul x NaN = NaN"
| "js_mul (Infinity s) (Infinity t) = Infinity (s \<noteq> t)"
| "js_mul (Infinity s) (Finite t b) = (if b = 0 then NaN else Infinity (s \<noteq> t))"
| "js_mul (Finite s a) (Infinity t) = (if a = 0 then NaN else Infinity (s \<noteq> t))"
| "js_mul (Finite s a) (Finite t b) = to_number (s \<noteq> t) (a * b)"

fun js_div :: "number \<Rightarrow> number \<Rightarrow> number" where
  "js_div NaN y = NaN"
| "js_div x NaN = NaN"
| "js_div (Infinity s) (Infinity t) = NaN"
| "js_div (Infinity s) (Finite t b) = Infinity (s \<noteq> t)"
| "js_div (Finite s a) (Infinity t) = Finite (s \<noteq> t) 0"
| "js_div (Finite s a) (Finite t b) =
     (if b = 0 then (if a = 0 then NaN else Infinity (s \<noteq> t))
      else to_number (s \<noteq> t) (a / b))"

subsection \<open>Number.parseFloat\<close>

text \<open>
  Strings are lists of code units; a \<open>char\<close> holds the code units below 256, which covers
  every character the component writes or compares. \<open>parseFloat\<close> skips leading white
  space and reads the longest prefix that is a decimal literal: an optional sign, then
  \<open>Infinity\<close>, or digits with an optional fraction and an optional complete exponent.
  With no such prefix the result is \<open>NaN\<close>.
\<close>

definition is_digit :: "char \<Rightarrow> bool" where
  "is_digit c = (c \<in> set ''0123456789'')"

definition is_white_space :: "char \<Rightarrow> bool" where
  "is_white_space c = ((of_char c :: nat) \<in> {9, 10, 11, 12, 13, 32, 160})"

definition digit_value :: "char \<Rightarrow> int" where
  "digit_value c = int (of_char c) - 48"

definition decimal_value :: "string \<Rightarrow> int" where
  "decimal_value ds = foldl (\<lambda>n c. 10 * n + digit_value c) 0 ds"

definition ExponentPart :: "string \<Rightarrow> int" where
  "ExponentPart r =
     (case r of
        [] \<Rightarrow> 0
      | c # cs \<Rightarrow>
          if c = CHR ''e'' \<or> c = CHR ''E'' then
            (let neg = (take 1 cs = ''-'');
                 ds = takeWhile is_digit
                        (if take 1 cs = ''-'' \<or> take 1 cs = ''+'' then drop 1 cs else cs)
             in if ds = [] then 0 else if neg then - decimal_value ds else decimal_value ds)
          else 0)"

definition StrUnsignedDecimalLiteral :: "bool \<Rightarrow> string \<Rightarrow> number" where
  "StrUnsignedDecimalLiteral neg s =
     (if take 8 s = ''Infinity'' then Infinity neg
      else
        let ip = takeWhile is_digit s;
            r1 = dropWhile is_digit s;
            dot = (take 1 r1 = ''.'');
            fp = (if dot then takeWhile is_digit (drop 1 r1) else []);
            r2 = (if dot then dropWhile is_digit (drop 1 r1) else r1)
        in if ip = [] \<and> fp = [] then NaN
           else to_number neg
                  (of_int (decimal_value (ip @ fp)) * pow 10 (ExponentPart r2 - int (length fp))))"

definition parseFloat :: "string \<Rightarrow> number" where
  "parseFloat inputString =
     (let trimmed = dropWhile is_white_space inputString
      in if take 1 trimmed = ''-'' then StrUnsignedDecimalLiteral True (drop 1 trimmed)
         else if take 1 trimmed = ''+'' then StrUnsignedDecimalLiteral False (drop 1 trimmed)
         else StrUnsignedDecimalLiteral False trimmed)"

subsection \<open>String(number)\<close>

text \<open>
  The text of a finite non-zero number is built from the shortest decimal digit string
  \<open>s\<close> (\<open>k\<close> digits) and the exponent \<open>n\<close> such that \<open>s * 10 ^ (n - k)\<close> rounds back to the
  number; of two such digit strings of the same length the nearer one is taken. Seventeen
  digits always suffice for a binary64 value.
\<close>

function decimal_digits :: "int \<Rightarrow> string" where
  "decimal_digits n =
     (if n < 10 then [''0123456789'' ! nat n]
      else decimal_digits (n div 10) @ [''0123456789'' ! nat (n mod 10)])"
  by pat_completeness auto
termination
  by (relation "measure nat") auto

definition candidate :: "rat \<Rightarrow> int \<Rightarrow> (int \<times> int) option" where
  "candidate x k =
     (let n = ilog 10 x + 1;
          u = pow 10 (n - k);
          lo = \<lfloor>x / u\<rfloor>;
          hi = lo + 1;
          ok_lo = (round_binary64 (of_int lo * u) = Some x);
          ok_hi = (round_binary64 (of_int hi * u) = Some x);
          d_lo = x - of_int lo * u;
          d_hi = of_int hi * u - x;
          s = (if ok_lo \<and> ok_hi then
                 (if d_lo < d_hi then lo else if d_hi < d_lo then hi
                  else if even lo then lo else hi)
               else if ok_lo then lo else hi)
      in if ok_lo \<or> ok_hi
         then Some (if s = \<lfloor>pow 10 k\<rfloor> then (\<lfloor>pow 10 (k - 1)\<rfloor>, n + 1) else (s, n))
         else None)"

function shortest :: "rat \<Rightarrow> int \<Rightarrow> int \<times> int \<times> int" where
  "shortest x k =
     (if 17 < k then (17, \<lfloor>x / pow 10 (ilog 10 x - 16)\<rfloor>, ilog 10 x + 1)
      else case candidate x k of
             Some (s, n) \<Rightarrow> (k, s, n)
           | None \<Rightarrow> shortest x (k + 1))"
  by pat_completeness auto
termination
  by (relation "measure (\<lambda>(x, k). nat (18 - k))") auto

definition digits_string :: "rat \<Rightarrow> string" where
  "digits_string x =
     (let (k, s, n) = shortest x 1;
          ds = decimal_digits s
      in if - 5 \<le> n \<and> n \<le> 21 then
           (if k \<le> n then ds @ replicate (nat (n - k)) CHR ''0''
            else if 0 < n then take (nat n) ds @ ''.'' @ drop (nat n) ds
            else ''0.'' @ replicate (nat (- n)) CHR ''0'' @ ds)
         else
           (let e = n - 1;
                es = (if e < 0 then ''-'' else ''+'') @ decimal_digits \<bar>e\<bar>
            in if k = 1 then ds @ ''e'' @ es
               else take 1 ds @ ''.'' @ drop 1 ds @ ''e'' @ es))"

fun ToString :: "number \<Rightarrow> string" where
  "ToString NaN = ''NaN''"
| "ToString (Infinity s) = (if s then ''-Infinity'' else ''Infinity'')"
| "ToString (Finite s m) =
     (if m = 0 then ''0'' else (if s then ''-'' else []) @ digits_string m)"

subsection \<open>String methods\<close>

text \<open>
  \<open>next.replace(".", "")\<close> with a string pattern removes the first occurrence only;
  \<open>prev.includes(".")\<close> tests for an occurrence; \<open>prev.slice(0, -1)\<close> drops the last
  code unit (and leaves the empty string empty).
\<close>

definition replace_dot :: "string \<Rightarrow> string" where
  "replace_dot t = remove1 CHR ''.'' t"

definition includes_dot :: "string \<Rightarrow> bool" where
  "includes_dot t = (CHR ''.'' \<in> set t)"

definition slice_0_minus1 :: "string \<Rightarrow> string" where
  "slice_0_minus1 t = butlast t"

section \<open>The evaluator\<close>

text \<open>
  Modelled from the spec: the type \<open>Operator\<close> and the function \<open>calculate\<close> are imported
  by the component from \<open>lib/calculatorEngine\<close>, which is not among the source files. The
  operator set is the four-element set of the data model; the component writes its
  members as the strings \<open>+\<close>, \<open>-\<close>, \<open>*\<close> and \<open>/\<close>.
\<close>

datatype Operator = Add | Subtract | Multiply | Divide

fun symbol :: "Operator \<Rightarrow> string" where
  "symbol Add = ''+''"
| "symbol Subtract = ''-''"
| "symbol Multiply = ''*''"
| "symbol Divide = ''/''"

text \<open>
  Modelled from the spec: \<open>calculate\<close> of \<open>lib/calculatorEngine\<close> (section 4.1 of the
  specification): add is left + right, subtract is left - right, multiply is left * right
  and divide is left / right in double-precision arithmetic, division by zero giving the
  floating-point Infinity or NaN and no exception. The handlers below take the evaluator as
  a parameter; this definition instantiates it in concrete runs.
\<close>

fun calculate :: "number \<Rightarrow> number \<Rightarrow> Operator \<Rightarrow> number" where
  "calculate left right Add = js_add left right"
| "calculate left right Subtract = js_sub left right"
| "calculate left right Multiply = js_mul left right"
| "calculate left right Divide = js_div left right"

section \<open>The calculator component (components/Calculator.tsx)\<close>

text \<open>
  The four \<open>useState\<close> cells of the component. Every event handler runs to completion
  and the component re-renders before the next event, so a handler is a function from
  the state it closes over to the state after its queued updates.
\<close>

record calc_state =
  display :: string
  previousValue :: "number option"
  operator :: "Operator option"
  waitingForOperand :: bool

definition initial :: calc_state where
  "initial = \<lparr>display = ''0'', previousValue = None, operator = None,
               waitingForOperand = False\<rparr>"

definition handleNumber :: "string \<Rightarrow> calc_state \<Rightarrow> calc_state" where
  "handleNumber digit s =
     (let prev = display s in
      if waitingForOperand s then s\<lparr>display := digit, waitingForOperand := False\<rparr>
      else let next = (if prev = ''0'' then digit else prev @ digit)
           in if length (replace_dot next) > 15 then s\<lparr>display := prev\<rparr>
              else s\<lparr>display := next\<rparr>)"

definition handleOperator ::
  "(number \<Rightarrow> number \<Rightarrow> Operator \<Rightarrow> number) \<Rightarrow> Operator \<Rightarrow> calc_state \<Rightarrow> calc_state" where
  "handleOperator calc nextOperator s =
     (let inputValue = parseFloat (display s) in
      if previousValue s = None then
        s\<lparr>previousValue := Some inputValue, operator := Some nextOperator,
          waitingForOperand := True\<rparr>
      else if operator s \<noteq> None \<and> \<not> waitingForOperand s then
        (let result = calc (the (previousValue s)) inputValue (the (operator s))
         in s\<lparr>display := ToString result, previousValue := Some result,
              operator := Some nextOperator, waitingForOperand := True\<rparr>)
      else s\<lparr>operator := Some nextOperator, waitingForOperand := True\<rparr>)"

definition handleEquals ::
  "(number \<Rightarrow> number \<Rightarrow> Operator \<Rightarrow> number) \<Rightarrow> calc_state \<Rightarrow> calc_state" where
  "handleEquals calc s =
     (if operator s = None \<or> previousValue s = None then s
      else let inputValue = parseFloat (display s);
               result = calc (the (previousValue s)) inputValue (the (operator s))
           in s\<lparr>display := ToString result, previousValue := None, operator := None,
                waitingForOperand := True\<rparr>)"

definition handleClear :: "calc_state \<Rightarrow> calc_state" where
  "handleClear s =
     s\<lparr>display := ''0'', previousValue := None, operator := None,
       waitingForOperand := False\<rparr>"

definition handleDecimal :: "calc_state \<Rightarrow> calc_state" where
  "handleDecimal s =
     (if waitingForOperand s then s\<lparr>display := ''0.'', waitingForOperand := False\<rparr>
      else let prev = display s
           in s\<lparr>display := (if includes_dot prev then prev else prev @ ''.'')\<rparr>)"

definition handleBackspace :: "calc_state \<Rightarrow> calc_state" where
  "handleBackspace s =
     (if waitingForOperand s then s
      else let prev = display s; next = slice_0_minus1 prev
           in s\<lparr>display := (if next = [] then ''0'' else next)\<rparr>)"

text \<open>The keypad, in the order of the grid, and the handler each button's \<open>onClick\<close> calls.\<close>

datatype button =
    ButtonAC | ButtonBackspace | ButtonDivide
  | Button7 | Button8 | Button9 | ButtonMultiply
  | Button4 | Button5 | Button6 | ButtonSubtract
  | Button1 | Button2 | Button3 | ButtonAdd
  | Button0 | ButtonDecimal | ButtonEquals

fun onClick ::
  "(number \<Rightarrow> number \<Rightarrow> Operator \<Rightarrow> number) \<Rightarrow> button \<Rightarrow> calc_state \<Rightarrow> calc_state" where
  "onClick calc ButtonAC = handleClear"
| "onClick calc ButtonBackspace = handleBackspace"
| "onClick calc ButtonDivide = handleOperator calc Divide"
| "onClick calc Button7 = handleNumber ''7''"
| "onClick calc Button8 = handleNumber ''8''"
| "onClick calc Button9 = handleNumber ''9''"
| "onClick calc ButtonMultiply = handleOperator calc Multiply"
| "onClick calc Button4 = handleNumber ''4''"
| "onClick calc Button5 = handleNumber ''5''"
| "onClick calc Button6 = handleNumber ''6''"
| "onClick calc ButtonSubtract = handleOperator calc Subtract"
| "onClick calc Button1 = handleNumber ''1''"
| "onClick calc Button2 = handleNumber ''2''"
| "onClick calc Button3 = handleNumber ''3''"
| "onClick calc ButtonAdd = handleOperator calc Add"
| "onClick calc Button0 = handleNumber ''0''"
| "onClick calc ButtonDecimal = handleDecimal"
| "onClick calc ButtonEquals = handleEquals calc"

text \<open>The state after a sequence of button presses, starting from the initial render.\<close>

definition run ::
  "(number \<Rightarrow> number \<Rightarrow> Operator \<Rightarrow> number) \<Rightarrow> button list \<Rightarrow> calc_state" where
  "run calc bs = foldl (\<lambda>s b. onClick calc b s) initial bs"

section \<open>The component with keyboard input\<close>

text \<open>
  A second file holds the component with keyboard input. It adds a fifth state cell, the
  name of the last pressed button (it only drives the pressed style of the buttons), and a
  window-level \<open>keydown\<close> listener. Its handlers are those above with the extra cell
  set; they are written out again here as that file has them, with a prime on each name.
\<close>

record kb_state = calc_state +
  lastPressedButton :: "string option"

definition initial' :: kb_state where
  "initial' = \<lparr>display = ''0'', previousValue = None, operator = None,
                waitingForOperand = False, lastPressedButton = None\<rparr>"

definition handleNumber' :: "string \<Rightarrow> kb_state \<Rightarrow> kb_state" where
  "handleNumber' digit s =
     (let s1 = s\<lparr>lastPressedButton := Some (''number-'' @ digit)\<rparr>;
          prev = display s
      in if waitingForOperand s then s1\<lparr>display := digit, waitingForOperand := False\<rparr>
         else let next = (if prev = ''0'' then digit else prev @ digit)
              in if length (replace_dot next) > 15 then s1\<lparr>display := prev\<rparr>
                 else s1\<lparr>display := next\<rparr>)"

definition handleOperator' ::
  "(number \<Rightarrow> number \<Rightarrow> Operator \<Rightarrow> number) \<Rightarrow> Operator \<Rightarrow> kb_state \<Rightarrow> kb_state" where
  "handleOperator' calc nextOperator s =
     (let s1 = s\<lparr>lastPressedButton := Some (''operator-'' @ symbol nextOperator)\<rparr>;
          inputValue = parseFloat (display s)
      in if previousValue s = None then
           s1\<lparr>previousValue := Some inputValue, operator := Some nextOperator,
              waitingForOperand := True\<rparr>
         else if operator s \<noteq> None \<and> \<not> waitingForOperand s then
           (let result = calc (the (previousValue s)) inputValue (the (operator s))
            in s1\<lparr>display := ToString result, previousValue := Some result,
                  operator := Some nextOperator, waitingForOperand := True\<rparr>)
         else s1\<lparr>operator := Some nextOperator, waitingForOperand := True\<rparr>)"

definition handleEquals' ::
  "(number \<Rightarrow> number \<Rightarrow> Operator \<Rightarrow> number) \<Rightarrow> kb_state \<Rightarrow> kb_state" where
  "handleEquals' calc s =
     (if operator s = None \<or> previousValue s = None then s
      else let s1 = s\<lparr>lastPressedButton := None\<rparr>;
               inputValue = parseFloat (display s);
               result = calc (the (previousValue s)) inputValue (the (operator s))
           in s1\<lparr>display := ToString result, previousValue := None, operator := None,
                 waitingForOperand := True\<rparr>)"

definition handleClear' :: "kb_state \<Rightarrow> kb_state" where
  "handleClear' s =
     s\<lparr>lastPressedButton := None, display := ''0'', previousValue := None,
       operator := None, waitingForOperand := False\<rparr>"

definition handleDecimal' :: "kb_state \<Rightarrow> kb_state" where
  "handleDecimal' s =
     (let s1 = s\<lparr>lastPressedButton := Some ''decimal''\<rparr>
      in if waitingForOperand s then s1\<lparr>display := ''0.'', waitingForOperand := False\<rparr>
         else let prev = display s
              in s1\<lparr>display := (if includes_dot prev then prev else prev @ ''.'')\<rparr>)"

definition handleBackspace' :: "kb_state \<Rightarrow> kb_state" where
  "handleBackspace' s =
     (if waitingForOperand s then s
      else let s1 = s\<lparr>lastPressedButton := Some ''backspace''\<rparr>;
               prev = display s;
               next = slice_0_minus1 prev
           in s1\<lparr>display := (if next = [] then ''0'' else next)\<rparr>)"

text \<open>
  The relational operators on strings compare code units from the left; a proper prefix
  is less than the string it begins.
\<close>

fun string_less :: "string \<Rightarrow> string \<Rightarrow> bool" where
  "string_less [] [] = False"
| "string_less [] (y # ys) = True"
| "string_less (x # xs) [] = False"
| "string_less (x # xs) (y # ys) =
     (if x = y then string_less xs ys else (of_char x :: nat) < of_char y)"

definition string_le :: "string \<Rightarrow> string \<Rightarrow> bool" where
  "string_le a b = (\<not> string_less b a)"

text \<open>The \<open>keydown\<close> listener; a key it does not match leaves the state as it is.\<close>

definition handleKeyDown ::
  "(number \<Rightarrow> number \<Rightarrow> Operator \<Rightarrow> number) \<Rightarrow> string \<Rightarrow> kb_state \<Rightarrow> kb_state" where
  "handleKeyDown calc key s =
     (if string_le ''0'' key \<and> string_le key ''9'' then handleNumber' key s
      else if key = ''+'' then handleOperator' calc Add s
      else if key = ''-'' then handleOperator' calc Subtract s
      else if key = ''*'' then handleOperator' calc Multiply s
      else if key = ''/'' then handleOperator' calc Divide s
      else if key = ''Enter'' \<or> key = ''='' then handleEquals' calc s
      else if key = ''.'' \<or> key = '','' then handleDecimal' s
      else if key = ''Backspace'' \<or> key = ''Delete'' then handleBackspace' s
      else if key = ''Escape'' then handleClear' s
      else s)"

fun onClick' ::
  "(number \<Rightarrow> number \<Rightarrow> Operator \<Rightarrow> number) \<Rightarrow> button \<Rightarrow> kb_state \<Rightarrow> kb_state" where
  "onClick' calc ButtonAC = handleClear'"
| "onClick' calc ButtonBackspace = handleBackspace'"
| "onClick' calc ButtonDivide = handleOperator' calc Divide"
| "onClick' calc Button7 = handleNumber' ''7''"
| "onClick' calc Button8 = handleNumber' ''8''"
| "onClick' calc Button9 = handleNumber' ''9''"
| "onClick' calc ButtonMultiply = handleOperator' calc Multiply"
| "onClick' calc Button4 = handleNumber' ''4''"
| "onClick' calc Button5 = handleNumber' ''5''"
| "onClick' calc Button6 = handleNumber' ''6''"
| "onClick' calc ButtonSubtract = handleOperator' calc Subtract"
| "onClick' calc Button1 = handleNumber' ''1''"
| "onClick' calc Button2 = handleNumber' ''2''"
| "onClick' calc Button3 = handleNumber' ''3''"
| "onClick' calc ButtonAdd = handleOperator' calc Add"
| "onClick' calc Button0 = handleNumber' ''0''"
| "onClick' calc ButtonDecimal = handleDecimal'"
| "onClick' calc ButtonEquals = handleEquals' calc"

section \<open>Notions of the specification\<close>

text \<open>
  The keyboard mapping of the specification (section 6), each key paired with the
  on-screen control of the same operation.
\<close>

definition keyboard_table :: "(string \<times> button) list" where
  "keyboard_table =
     [(''0'', Button0), (''1'', Button1), (''2'', Button2), (''3'', Button3),
      (''4'', Button4), (''5'', Button5), (''6'', Button6), (''7'', Button7),
      (''8'', Button8), (''9'', Button9),
      (''+'', ButtonAdd), (''-'', ButtonSubtract), (''*'', ButtonMultiply),
      (''/'', ButtonDivide),
      (''Enter'', ButtonEquals), (''='', ButtonEquals),
      (''.'', ButtonDecimal), ('','', ButtonDecimal),
      (''Backspace'', ButtonBackspace), (''Delete'', ButtonBackspace),
      (''Escape'', ButtonAC)]"

text \<open>The pending operator is absent exactly when the pending operand is.\<close>

definition pending_paired :: "calc_state \<Rightarrow> bool" where
  "pending_paired s = ((operator s = None) = (previousValue s = None))"

text \<open>
  The one-character strings of a text, the ten digit arguments of digit entry, and typing
  a sequence of them.
\<close>

definition keys_of :: "string \<Rightarrow> string list" where
  "keys_of t = map (\<lambda>c. [c]) t"

definition digit_keys :: "string list" where
  "digit_keys = keys_of ''0123456789''"

definition type_digits :: "string list \<Rightarrow> calc_state \<Rightarrow> calc_state" where
  "type_digits ds s = foldl (\<lambda>s d. handleNumber d s) s ds"

text \<open>The number of decimal points of a text, and its length not counting the decimal point.\<close>

definition decimal_points :: "string \<Rightarrow> nat" where
  "decimal_points t = length (filter (\<lambda>c. c = CHR ''.'') t)"

definition digit_count :: "string \<Rightarrow> nat" where
  "digit_count t = length t - (if CHR ''.'' \<in> set t then 1 else 0)"

text \<open>
  Hand-typed text: non-empty, beginning with a digit, made of digits and at most one
  decimal point (which may be the last character).
\<close>

definition typed_text :: "string \<Rightarrow> bool" where
  "typed_text t =
     (t \<noteq> [] \<and> is_digit (hd t) \<and> list_all (\<lambda>c. is_digit c \<or> c = CHR ''.'') t \<and>
      decimal_points t \<le> 1)"


text \<open>
  Where a display text comes from: while a number is being typed it is hand-typed text,
  and in any case it is hand-typed text or the text of some number.
\<close>

definition display_inv :: "calc_state \<Rightarrow> bool" where
  "display_inv s =
     ((\<not> waitingForOperand s \<longrightarrow> typed_text (display s)) \<and>
      (typed_text (display s) \<or> (\<exists>r. display s = ToString r)))"

section \<open>Evaluation of the primitives on the literals used below\<close>

lemma parseFloat_0: "parseFloat ''0'' = Finite False 0"
  by code_simp

lemma parseFloat_2: "parseFloat ''2'' = Finite False 2"
  by code_simp

lemma parseFloat_3: "parseFloat ''3'' = Finite False 3"
  by code_simp

lemma parseFloat_5: "parseFloat ''5'' = Finite False 5"
  by code_simp

lemma parseFloat_NaN: "parseFloat ''NaN'' = NaN"
  by code_simp

lemma ToString_8: "ToString (Finite False 8) = ''8''"
  by code_simp

lemma ToString_16: "ToString (Finite False 16) = ''16''"
  by code_simp

lemma calculate_5_3: "calculate (Finite False 5) (Finite False 3) Add = Finite False 8"
  by code_simp

lemma calculate_8_2: "calculate (Finite False 8) (Finite False 2) Multiply = Finite False 16"
  by code_simp


lemma parseFloat_Infinity:
  "parseFloat ''Infinity'' = Infinity False" "parseFloat ''-Infinity'' = Infinity True"
  by (simp_all add: parseFloat_def StrUnsignedDecimalLiteral_def is_white_space_def)


lemma to_number_not_NaN: "to_number s a \<noteq> NaN"
  by (simp add: to_number_def split: option.split)


text \<open>
  Three runs whose results are computed text: a sum that is not exact in binary64, a
  division by zero, and a product printed with an exponent.
\<close>

lemma sum_of_tenths_run:
  "run calculate [Button0, ButtonDecimal, Button1, ButtonAdd,
                  Button0, ButtonDecimal, Button2, ButtonEquals] =
     \<lparr>display = ''0.30000000000000004'', previousValue = None, operator = None,
      waitingForOperand = True\<rparr>"
  by code_simp

lemma five_by_zero_run:
  "run calculate [Button5, ButtonDivide, Button0, ButtonEquals] =
     \<lparr>display = ''Infinity'', previousValue = None, operator = None,
      waitingForOperand = True\<rparr>"
  by code_simp

lemma exponent_run:
  "run calculate ([Button1] @ replicate 14 Button0 @ [ButtonMultiply, Button1] @
      replicate 14 Button0 @ [ButtonEquals]) =
     \<lparr>display = ''1e+28'', previousValue = None, operator = None, waitingForOperand = True\<rparr>"
  by code_simp

lemma infinity_then_plus_one_run:
  "run calculate [Button5, ButtonDivide, Button0, ButtonEquals, ButtonAdd, Button1,
                  ButtonEquals] =
     \<lparr>display = ''Infinity'', previousValue = None, operator = None,
      waitingForOperand = True\<rparr>"
  by code_simp

lemmas handlers = handleNumber_def handleOperator_def handleEquals_def handleClear_def
  handleDecimal_def handleBackspace_def replace_dot_def includes_dot_def slice_0_minus1_def
  Let_def

section \<open>Operator selection\<close>

text \<open>
  Claim C1. Pressing an operator \<open>op\<close> reads the display as \<open>inputValue\<close>. With no pending
  operand it stores \<open>inputValue\<close> and \<open>op\<close> and sets the waiting flag. With a pending
  operand and operator and the flag clear it evaluates the pending operation, shows the
  text of the result, stores the result and \<open>op\<close> and sets the flag. Otherwise it only
  replaces the operator and sets the flag, leaving operand and display as they are: the
  presses 5, +, - end with operand 5, operator subtract and display "5".
\<close>

theorem operator_rule:
  "(previousValue s = None \<longrightarrow>
      handleOperator calc op s =
        s\<lparr>previousValue := Some (parseFloat (display s)), operator := Some op,
          waitingForOperand := True\<rparr>) \<and>
   (previousValue s = Some pv \<and> operator s = Some po \<and> \<not> waitingForOperand s \<longrightarrow>
      handleOperator calc op s =
        s\<lparr>display := ToString (calc pv (parseFloat (display s)) po),
          previousValue := Some (calc pv (parseFloat (display s)) po),
          operator := Some op, waitingForOperand := True\<rparr>) \<and>
   (previousValue s \<noteq> None \<and> (operator s = None \<or> waitingForOperand s) \<longrightarrow>
      handleOperator calc op s = s\<lparr>operator := Some op, waitingForOperand := True\<rparr>) \<and>
   run calc [Button5, ButtonAdd, ButtonSubtract] =
     \<lparr>display = ''5'', previousValue = Some (Finite False 5), operator = Some Subtract,
      waitingForOperand = True\<rparr>"
proof -
  have example: "run calc [Button5, ButtonAdd, ButtonSubtract] =
      \<lparr>display = ''5'', previousValue = Some (Finite False 5), operator = Some Subtract,
       waitingForOperand = True\<rparr>"
    by (simp add: run_def initial_def handlers parseFloat_5)
  have rule: "(previousValue s = None \<longrightarrow>
      handleOperator calc op s =
        s\<lparr>previousValue := Some (parseFloat (display s)), operator := Some op,
          waitingForOperand := True\<rparr>) \<and>
   (previousValue s = Some pv \<and> operator s = Some po \<and> \<not> waitingForOperand s \<longrightarrow>
      handleOperator calc op s =
        s\<lparr>display := ToString (calc pv (parseFloat (display s)) po),
          previousValue := Some (calc pv (parseFloat (display s)) po),
          operator := Some op, waitingForOperand := True\<rparr>) \<and>
   (previousValue s \<noteq> None \<and> (operator s = None \<or> waitingForOperand s) \<longrightarrow>
      handleOperator calc op s = s\<lparr>operator := Some op, waitingForOperand := True\<rparr>)"
    by (auto simp: handleOperator_def Let_def)
  from rule example show ?thesis by blast
qed

theorem operator_rule_witness:
  "handleOperator calculate Add
     \<lparr>display = ''5'', previousValue = None, operator = None, waitingForOperand = False\<rparr> =
     \<lparr>display = ''5'', previousValue = Some (Finite False 5), operator = Some Add,
      waitingForOperand = True\<rparr> \<and>
   handleOperator calculate Multiply
     \<lparr>display = ''3'', previousValue = Some (Finite False 5), operator = Some Add,
      waitingForOperand = False\<rparr> =
     \<lparr>display = ''8'', previousValue = Some (Finite False 8), operator = Some Multiply,
      waitingForOperand = True\<rparr> \<and>
   handleOperator calculate Subtract
     \<lparr>display = ''5'', previousValue = Some (Finite False 5), operator = Some Add,
      waitingForOperand = True\<rparr> =
     \<lparr>display = ''5'', previousValue = Some (Finite False 5), operator = Some Subtract,
      waitingForOperand = True\<rparr>"
  using
    operator_rule [where calc = calculate and op = Add and s = "\<lparr>display = ''5'',
      previousValue = None, operator = None, waitingForOperand = False\<rparr>"]
    operator_rule [where calc = calculate and op = Multiply and pv = "Finite False 5"
      and po = Add and s = "\<lparr>display = ''3'', previousValue = Some (Finite False 5),
      operator = Some Add, waitingForOperand = False\<rparr>"]
    operator_rule [where calc = calculate and op = Subtract and s = "\<lparr>display = ''5'',
      previousValue = Some (Finite False 5), operator = Some Add, waitingForOperand = True\<rparr>"]
  by (simp add: parseFloat_5 parseFloat_3 calculate_5_3 ToString_8
      del: ToString.simps calculate.simps)

section \<open>Pending operand and pending operator\<close>

text \<open>
  Claim C2. In every state reached from the initial state by the buttons (digit entry,
  decimal entry, operator selection, equals, backspace, clear) the pending operator is
  absent exactly when the pending operand is absent, and each of the six handlers keeps
  this property of a state.
\<close>

theorem pending_pairing:
  "pending_paired (run calc bs) \<and>
   (pending_paired s \<longrightarrow>
      pending_paired (handleNumber d s) \<and> pending_paired (handleDecimal s) \<and>
      pending_paired (handleOperator calc op s) \<and> pending_paired (handleEquals calc s) \<and>
      pending_paired (handleBackspace s) \<and> pending_paired (handleClear s))"
proof -
  have step: "pending_paired (handleNumber d s) \<and> pending_paired (handleDecimal s) \<and>
      pending_paired (handleOperator calc op s) \<and> pending_paired (handleEquals calc s) \<and>
      pending_paired (handleBackspace s) \<and> pending_paired (handleClear s)"
    if "pending_paired s" for s d op
    using that by (auto simp: pending_paired_def handlers)
  have "pending_paired (run calc bs)"
  proof (induction bs rule: rev_induct)
    case Nil
    show ?case by (simp add: run_def initial_def pending_paired_def)
  next
    case (snoc b bs)
    then have "pending_paired (onClick calc b (run calc bs))"
      using step [of "run calc bs"] by (cases b) simp_all
    then show ?case by (simp add: run_def)
  qed
  with step show ?thesis by blast
qed

theorem pending_pairing_witness:
  "pending_paired (run calculate [Button5, ButtonAdd]) \<and>
   pending_paired \<lparr>display = ''5'', previousValue = Some (Finite False 5),
      operator = Some Add, waitingForOperand = True\<rparr> \<and>
   pending_paired (handleNumber ''3'' \<lparr>display = ''5'', previousValue = Some (Finite False 5),
      operator = Some Add, waitingForOperand = True\<rparr>) \<and>
   pending_paired (handleEquals calculate \<lparr>display = ''5'',
      previousValue = Some (Finite False 5), operator = Some Add, waitingForOperand = True\<rparr>) \<and>
   pending_paired (handleClear \<lparr>display = ''5'', previousValue = Some (Finite False 5),
      operator = Some Add, waitingForOperand = True\<rparr>)"
proof -
  have h: "pending_paired \<lparr>display = ''5'', previousValue = Some (Finite False 5),
      operator = Some Add, waitingForOperand = True\<rparr>"
    by (simp add: pending_paired_def)
  show ?thesis
    using h pending_pairing [where calc = calculate and bs = "[Button5, ButtonAdd]"
      and d = "''3''" and op = Add and s = "\<lparr>display = ''5'',
      previousValue = Some (Finite False 5), operator = Some Add, waitingForOperand = True\<rparr>"]
    by blast
qed

section \<open>Chained evaluation\<close>

text \<open>
  Claim C3. From the initial state the presses 5, +, 3, *, 2, = give: after + the pending
  operand 5 and operator add; after 3 the display "3"; after * the sum 5 + 3 = 8 as
  pending operand with operator multiply; after 2 the display "2"; after = the product
  8 * 2 = 16 shown as "16" with operand and operator cleared. The evaluator is a
  parameter: what is asked of it is that it returns 8 for 5 + 3 and 16 for 8 * 2.
\<close>

theorem chained_evaluation:
  assumes "calc (Finite False 5) (Finite False 3) Add = Finite False 8"
    and "calc (Finite False 8) (Finite False 2) Multiply = Finite False 16"
  shows "run calc [] =
           \<lparr>display = ''0'', previousValue = None, operator = None, waitingForOperand = False\<rparr> \<and>
         run calc [Button5] =
           \<lparr>display = ''5'', previousValue = None, operator = None, waitingForOperand = False\<rparr> \<and>
         run calc [Button5, ButtonAdd] =
           \<lparr>display = ''5'', previousValue = Some (Finite False 5), operator = Some Add,
            waitingForOperand = True\<rparr> \<and>
         run calc [Button5, ButtonAdd, Button3] =
           \<lparr>display = ''3'', previousValue = Some (Finite False 5), operator = Some Add,
            waitingForOperand = False\<rparr> \<and>
         run calc [Button5, ButtonAdd, Button3, ButtonMultiply] =
           \<lparr>display = ''8'', previousValue = Some (Finite False 8), operator = Some Multiply,
            waitingForOperand = True\<rparr> \<and>
         run calc [Button5, ButtonAdd, Button3, ButtonMultiply, Button2] =
           \<lparr>display = ''2'', previousValue = Some (Finite False 8), operator = Some Multiply,
            waitingForOperand = False\<rparr> \<and>
         run calc [Button5, ButtonAdd, Button3, ButtonMultiply, Button2, ButtonEquals] =
           \<lparr>display = ''16'', previousValue = None, operator = None, waitingForOperand = True\<rparr>"
  using assms
  by (simp add: run_def initial_def handlers parseFloat_5 parseFloat_3 parseFloat_2
      ToString_8 ToString_16 del: ToString.simps)

theorem chained_evaluation_witness:
  "run calculate [Button5, ButtonAdd] =
     \<lparr>display = ''5'', previousValue = Some (Finite False 5), operator = Some Add,
      waitingForOperand = True\<rparr> \<and>
   run calculate [Button5, ButtonAdd, Button3] =
     \<lparr>display = ''3'', previousValue = Some (Finite False 5), operator = Some Add,
      waitingForOperand = False\<rparr> \<and>
   run calculate [Button5, ButtonAdd, Button3, ButtonMultiply] =
     \<lparr>display = ''8'', previousValue = Some (Finite False 8), operator = Some Multiply,
      waitingForOperand = True\<rparr> \<and>
   run calculate [Button5, ButtonAdd, Button3, ButtonMultiply, Button2] =
     \<lparr>display = ''2'', previousValue = Some (Finite False 8), operator = Some Multiply,
      waitingForOperand = False\<rparr> \<and>
   run calculate [Button5, ButtonAdd, Button3, ButtonMultiply, Button2, ButtonEquals] =
     \<lparr>display = ''16'', previousValue = None, operator = None, waitingForOperand = True\<rparr>"
  using chained_evaluation [where calc = calculate, OF calculate_5_3 calculate_8_2]
  by blast

section \<open>The evaluator's arithmetic\<close>









section \<open>Digit entry\<close>

lemma digit_key_char:
  "d \<in> set digit_keys \<Longrightarrow> \<exists>c. d = [c] \<and> is_digit c \<and> c \<noteq> CHR ''.''"
  by (auto simp: digit_keys_def keys_of_def is_digit_def)

lemma length_replace_dot: "length (replace_dot t) = digit_count t"
  by (simp add: replace_dot_def digit_count_def length_remove1)

text \<open>On hand-typed text the count without the decimal point is the number of digits.\<close>

lemma digit_count_typed_text:
  assumes "typed_text t"
  shows "digit_count t = length (filter is_digit t)"
proof -
  have nd: "\<not> is_digit CHR ''.''" by (simp add: is_digit_def)
  from assms have all: "\<forall>c \<in> set t. is_digit c \<or> c = CHR ''.''"
    and le: "decimal_points t \<le> 1"
    by (simp_all add: typed_text_def list_all_iff)
  have part: "length t = length (filter is_digit t) + decimal_points t"
    using all unfolding decimal_points_def
  proof (induction t)
    case Nil
    show ?case by simp
  next
    case (Cons c cs)
    then show ?case using nd by auto
  qed
  have "CHR ''.'' \<in> set t \<longleftrightarrow> decimal_points t \<noteq> 0"
    by (auto simp: decimal_points_def filter_empty_conv)
  with le part show ?thesis by (auto simp: digit_count_def)
qed

lemma type_digits_Cons: "type_digits (d # ds) s = type_digits ds (handleNumber d s)"
  by (simp add: type_digits_def)

lemma type_digits_extend:
  assumes "\<not> waitingForOperand s" and "display s = t" and "t \<noteq> []" and "t \<noteq> ''0''"
    and "CHR ''.'' \<notin> set t" and "length t \<le> 15" and "set ds \<subseteq> set digit_keys"
  shows "type_digits ds s = s\<lparr>display := take 15 (t @ concat ds)\<rparr>"
  using assms
proof (induction ds arbitrary: s t)
  case Nil
  then show ?case by (simp add: type_digits_def)
next
  case (Cons d ds)
  from Cons.prems obtain c where d: "d = [c]" "c \<noteq> CHR ''.''"
    using digit_key_char by fastforce
  show ?case
  proof (cases "length t = 15")
    case True
    with Cons.prems d have step: "handleNumber d s = s"
      by (simp add: handleNumber_def Let_def length_replace_dot digit_count_def)
    have "type_digits ds s = s\<lparr>display := take 15 (t @ concat ds)\<rparr>"
      using Cons.prems by (intro Cons.IH) auto
    with True step show ?thesis by (simp add: type_digits_Cons)
  next
    case False
    with Cons.prems d have step: "handleNumber d s = s\<lparr>display := t @ d\<rparr>"
      by (simp add: handleNumber_def Let_def length_replace_dot digit_count_def)
    have "type_digits ds (s\<lparr>display := t @ d\<rparr>) =
            (s\<lparr>display := t @ d\<rparr>)\<lparr>display := take 15 ((t @ d) @ concat ds)\<rparr>"
      using Cons.prems False d by (intro Cons.IH) (auto simp: Cons_eq_append_conv)
    with step show ?thesis by (simp add: type_digits_Cons)
  qed
qed

lemma type_digits_fresh:
  assumes "waitingForOperand s \<or> display s = ''0''"
    and "set ds \<subseteq> set digit_keys" and "ds \<noteq> []" and "hd ds \<noteq> ''0''"
  shows "type_digits ds s = s\<lparr>display := take 15 (concat ds), waitingForOperand := False\<rparr>"
proof -
  from assms obtain d rest where ds: "ds = d # rest" by (cases ds) auto
  with assms obtain c where d: "d = [c]" "c \<noteq> CHR ''.''" "d \<noteq> ''0''"
    using digit_key_char by fastforce
  let ?s = "s\<lparr>display := d, waitingForOperand := False\<rparr>"
  have step: "handleNumber d s = ?s"
    using assms(1) d by (auto simp: handleNumber_def Let_def length_replace_dot digit_count_def)
  have "type_digits rest ?s = ?s\<lparr>display := take 15 (d @ concat rest)\<rparr>"
    using assms(2) d ds by (intro type_digits_extend) auto
  with step show ?thesis by (simp add: ds type_digits_Cons)
qed

lemma concat_digit_keys_take:
  "set ds \<subseteq> set digit_keys \<Longrightarrow> take n (concat ds) = concat (take n ds)"
proof (induction ds arbitrary: n)
  case Nil
  then show ?case by simp
next
  case (Cons d ds)
  then obtain c where "d = [c]" using digit_key_char by fastforce
  with Cons show ?case by (cases n) auto
qed

lemma length_concat_digit_keys:
  "set ds \<subseteq> set digit_keys \<Longrightarrow> length (concat ds) = length ds"
proof (induction ds)
  case Nil
  then show ?case by simp
next
  case (Cons d ds)
  then obtain c where "d = [c]" using digit_key_char by fastforce
  with Cons show ?case by auto
qed

lemma sixteen_digits:
  assumes "waitingForOperand s \<or> display s = ''0''"
    and "set ds \<subseteq> set digit_keys" and "length ds = 16" and "hd ds \<noteq> ''0''"
  shows "display (type_digits ds s) = concat (take 15 ds) \<and>
         length (display (type_digits ds s)) = 15 \<and>
         type_digits ds s = type_digits (take 15 ds) s"
proof -
  from assms have ne: "ds \<noteq> []" "take 15 ds \<noteq> []" by auto
  have sub: "set (take 15 ds) \<subseteq> set digit_keys"
    using assms(2) by (meson set_take_subset subset_trans)
  have hd: "hd (take 15 ds) \<noteq> ''0''" using assms(4) ne by (cases ds) auto
  have a: "type_digits ds s = s\<lparr>display := take 15 (concat ds), waitingForOperand := False\<rparr>"
    using assms ne by (intro type_digits_fresh) auto
  have b: "type_digits (take 15 ds) s =
             s\<lparr>display := take 15 (concat (take 15 ds)), waitingForOperand := False\<rparr>"
    using assms(1) sub ne hd by (intro type_digits_fresh) auto
  have c: "take 15 (concat ds) = concat (take 15 ds)"
    using assms(2) by (rule concat_digit_keys_take)
  have d: "take 15 (concat (take 15 ds)) = concat (take 15 ds)"
    using sub by (simp add: concat_digit_keys_take)
  have len: "length (concat (take 15 ds)) = 15"
    using sub assms(3) by (simp add: length_concat_digit_keys)
  from a b c d len show ?thesis by simp
qed

text \<open>
  Claim C5, as stated, fails where the digits typed begin with 0: a typed 0 is replaced by
  the next digit, so sixteen presses of 0 from the initial state leave the display "0",
  not a fifteen-digit text.
\<close>

theorem sixteen_zeros_display:
  "display (type_digits (keys_of ''0000000000000000'') initial) = ''0'' \<and>
   length (display (type_digits (keys_of ''0000000000000000'') initial)) \<noteq> 15"
  by (simp add: type_digits_def keys_of_def initial_def handleNumber_def replace_dot_def)

text \<open>
  Claim C5, amended. Digit entry of a digit \<open>d\<close>: with the waiting flag set the display
  becomes \<open>d\<close> and the flag is cleared; otherwise a display "0" is replaced by \<open>d\<close>;
  otherwise \<open>d\<close> is appended unless the text would then have more than 15 characters not
  counting the decimal point, and then the state is unchanged. Hence sixteen digits, the
  first of them not 0, typed where a fresh number starts (flag set, or display "0") leave
  the first fifteen on the display, and the sixteenth changes nothing.
\<close>

theorem digit_entry_rule:
  "d \<in> set digit_keys \<longrightarrow>
     (waitingForOperand s \<longrightarrow>
        handleNumber d s = s\<lparr>display := d, waitingForOperand := False\<rparr>) \<and>
     (\<not> waitingForOperand s \<and> display s = ''0'' \<longrightarrow> handleNumber d s = s\<lparr>display := d\<rparr>) \<and>
     (\<not> waitingForOperand s \<and> display s \<noteq> ''0'' \<longrightarrow>
        handleNumber d s =
          (if digit_count (display s @ d) > 15 then s else s\<lparr>display := display s @ d\<rparr>)) \<and>
     (set ds \<subseteq> set digit_keys \<and> length ds = 16 \<and> hd ds \<noteq> ''0'' \<and>
      (waitingForOperand s \<or> display s = ''0'') \<longrightarrow>
        display (type_digits ds s) = concat (take 15 ds) \<and>
        length (display (type_digits ds s)) = 15 \<and>
        type_digits ds s = type_digits (take 15 ds) s)"
proof (intro impI conjI)
  assume d: "d \<in> set digit_keys"
  then obtain c where c: "d = [c]" "c \<noteq> CHR ''.''"
    using digit_key_char by blast
  show "handleNumber d s = s\<lparr>display := d, waitingForOperand := False\<rparr>"
    if "waitingForOperand s"
    using that by (simp add: handleNumber_def)
  show "handleNumber d s = s\<lparr>display := d\<rparr>"
    if "\<not> waitingForOperand s \<and> display s = ''0''"
    using that c by (simp add: handleNumber_def length_replace_dot digit_count_def)
  show "handleNumber d s =
          (if digit_count (display s @ d) > 15 then s else s\<lparr>display := display s @ d\<rparr>)"
    if "\<not> waitingForOperand s \<and> display s \<noteq> ''0''"
    using that by (simp add: handleNumber_def Let_def length_replace_dot)
next
  assume h: "set ds \<subseteq> set digit_keys \<and> length ds = 16 \<and> hd ds \<noteq> ''0'' \<and>
      (waitingForOperand s \<or> display s = ''0'')"
  then have all: "display (type_digits ds s) = concat (take 15 ds) \<and>
         length (display (type_digits ds s)) = 15 \<and>
         type_digits ds s = type_digits (take 15 ds) s"
    by (intro sixteen_digits) auto
  from all show "display (type_digits ds s) = concat (take 15 ds)" by blast
  from all show "length (display (type_digits ds s)) = 15" by blast
  from all show "type_digits ds s = type_digits (take 15 ds) s" by blast
qed

theorem digit_entry_rule_witness:
  "handleNumber ''5'' \<lparr>display = ''8'', previousValue = Some (Finite False 8),
      operator = Some Add, waitingForOperand = True\<rparr> =
     \<lparr>display = ''5'', previousValue = Some (Finite False 8), operator = Some Add,
      waitingForOperand = False\<rparr> \<and>
   handleNumber ''5'' initial = initial\<lparr>display := ''5''\<rparr> \<and>
   handleNumber ''5'' (initial\<lparr>display := ''123456789012345''\<rparr>) =
     initial\<lparr>display := ''123456789012345''\<rparr> \<and>
   handleNumber ''5'' (initial\<lparr>display := ''12.5''\<rparr>) = initial\<lparr>display := ''12.55''\<rparr> \<and>
   display (type_digits (keys_of ''1234567890123456'') initial) = ''123456789012345''"
proof -
  let ?L = "keys_of ''1234567890123456''"
  have five: "''5'' \<in> set digit_keys"
    by (simp add: digit_keys_def keys_of_def)
  have a: "handleNumber ''5'' \<lparr>display = ''8'', previousValue = Some (Finite False 8),
      operator = Some Add, waitingForOperand = True\<rparr> =
     \<lparr>display = ''5'', previousValue = Some (Finite False 8), operator = Some Add,
      waitingForOperand = False\<rparr>"
    using five digit_entry_rule [where d = "''5''" and ds = "[]" and s = "\<lparr>display = ''8'',
      previousValue = Some (Finite False 8), operator = Some Add, waitingForOperand = True\<rparr>"]
    by simp
  have b: "handleNumber ''5'' initial = initial\<lparr>display := ''5''\<rparr>"
    using five digit_entry_rule [where d = "''5''" and ds = "[]" and s = initial]
    by (simp add: initial_def)
  have c: "handleNumber ''5'' (initial\<lparr>display := ''123456789012345''\<rparr>) =
     initial\<lparr>display := ''123456789012345''\<rparr>"
    using five digit_entry_rule [where d = "''5''" and ds = "[]"
      and s = "initial\<lparr>display := ''123456789012345''\<rparr>"]
    by (simp add: initial_def digit_count_def)
  have d: "handleNumber ''5'' (initial\<lparr>display := ''12.5''\<rparr>) =
     initial\<lparr>display := ''12.55''\<rparr>"
    using five digit_entry_rule [where d = "''5''" and ds = "[]"
      and s = "initial\<lparr>display := ''12.5''\<rparr>"]
    by (simp add: initial_def digit_count_def)
  have "set ?L \<subseteq> set digit_keys \<and> length ?L = 16 \<and> hd ?L \<noteq> ''0'' \<and>
      (waitingForOperand initial \<or> display initial = ''0'')"
    by (simp add: digit_keys_def keys_of_def initial_def)
  with five have "display (type_digits ?L initial) = concat (take 15 ?L)"
    using digit_entry_rule [where d = "''5''" and s = initial and ds = ?L] by blast
  then have e: "display (type_digits ?L initial) = ''123456789012345''"
    by (simp add: keys_of_def)
  from a b c d e show ?thesis by blast
qed

section \<open>The text on the display\<close>

lemma typed_text_digit: "d \<in> set digit_keys \<Longrightarrow> typed_text d"
  by (auto simp: typed_text_def decimal_points_def dest!: digit_key_char)

lemma typed_text_append_digit:
  "typed_text t \<Longrightarrow> d \<in> set digit_keys \<Longrightarrow> typed_text (t @ d)"
  by (auto simp: typed_text_def decimal_points_def dest!: digit_key_char)

lemma typed_text_append_dot:
  "typed_text t \<Longrightarrow> CHR ''.'' \<notin> set t \<Longrightarrow> typed_text (t @ ''.'')"
  by (auto simp: typed_text_def decimal_points_def filter_empty_conv)

lemma typed_text_butlast:
  assumes "typed_text t" and "butlast t \<noteq> []"
  shows "typed_text (butlast t)"
proof -
  from assms have ne: "t \<noteq> []" by auto
  then have split: "t = butlast t @ [last t]" by simp
  have hd: "hd (butlast t) = hd t"
    using assms(2) split by (metis hd_append2)
  have all: "list_all (\<lambda>c. is_digit c \<or> c = CHR ''.'') (butlast t)"
    using assms(1) by (auto simp: typed_text_def list_all_iff dest: in_set_butlastD)
  have "decimal_points t = decimal_points (butlast t) + decimal_points [last t]"
    unfolding decimal_points_def by (subst split) (simp only: filter_append length_append)
  then have "decimal_points (butlast t) \<le> decimal_points t" by simp
  with assms hd all show ?thesis by (simp add: typed_text_def)
qed

lemma typed_text_literals: "typed_text ''0''" "typed_text ''0.''"
  by (simp_all add: typed_text_def decimal_points_def is_digit_def)

lemma button_digit:
  "''0'' \<in> set digit_keys" "''1'' \<in> set digit_keys" "''2'' \<in> set digit_keys"
  "''3'' \<in> set digit_keys" "''4'' \<in> set digit_keys" "''5'' \<in> set digit_keys"
  "''6'' \<in> set digit_keys" "''7'' \<in> set digit_keys" "''8'' \<in> set digit_keys"
  "''9'' \<in> set digit_keys"
  by (simp_all add: digit_keys_def keys_of_def)

lemma inv_handleNumber:
  "d \<in> set digit_keys \<Longrightarrow> display_inv s \<Longrightarrow> display_inv (handleNumber d s)"
  by (auto simp: display_inv_def handleNumber_def Let_def typed_text_digit
      typed_text_append_digit)

lemma inv_handleDecimal: "display_inv s \<Longrightarrow> display_inv (handleDecimal s)"
  by (auto simp: display_inv_def handleDecimal_def includes_dot_def Let_def
      typed_text_literals typed_text_append_dot)

lemma inv_handleBackspace: "display_inv s \<Longrightarrow> display_inv (handleBackspace s)"
  by (auto simp: display_inv_def handleBackspace_def slice_0_minus1_def Let_def
      typed_text_literals typed_text_butlast)

lemma inv_handleClear: "display_inv (handleClear s)"
  by (simp add: display_inv_def handleClear_def typed_text_literals)

lemma inv_handleOperator: "display_inv s \<Longrightarrow> display_inv (handleOperator calc op s)"
  by (auto simp: display_inv_def handleOperator_def Let_def)

lemma inv_handleEquals: "display_inv s \<Longrightarrow> display_inv (handleEquals calc s)"
  by (auto simp: display_inv_def handleEquals_def Let_def)

lemma inv_onClick: "display_inv s \<Longrightarrow> display_inv (onClick calc b s)"
  by (cases b)
    (simp_all add: inv_handleNumber inv_handleDecimal inv_handleBackspace inv_handleClear
      inv_handleOperator inv_handleEquals button_digit)

lemma inv_run: "display_inv (run calc bs)"
proof (induction bs rule: rev_induct)
  case Nil
  show ?case by (simp add: run_def initial_def display_inv_def typed_text_literals)
next
  case (snoc b bs)
  then show ?case by (simp add: run_def inv_onClick)
qed

text \<open>
  Text that begins with a digit, or with a minus sign and a digit, is read by
  \<open>parseFloat\<close> as a number; so is hand-typed text, and so is the text of every number
  but NaN.
\<close>

lemma parseFloat_digit_start:
  assumes "is_digit c"
  shows "parseFloat (c # cs) \<noteq> NaN"
proof -
  from assms have nw: "\<not> is_white_space c"
    and ns: "c \<noteq> CHR ''-''" "c \<noteq> CHR ''+''" "c \<noteq> CHR ''I''"
    by (auto simp: is_digit_def is_white_space_def)
  show ?thesis
    using nw ns assms
    by (simp add: parseFloat_def StrUnsignedDecimalLiteral_def Let_def to_number_not_NaN)
qed

lemma parseFloat_minus_digit_start:
  assumes "is_digit c"
  shows "parseFloat (CHR ''-'' # c # cs) \<noteq> NaN"
proof -
  from assms have ns: "c \<noteq> CHR ''I''"
    by (auto simp: is_digit_def)
  have nw: "\<not> is_white_space CHR ''-''" by (simp add: is_white_space_def)
  show ?thesis
    using nw ns assms
    by (simp add: parseFloat_def StrUnsignedDecimalLiteral_def Let_def to_number_not_NaN)
qed

lemma typed_text_parses:
  assumes "typed_text t"
  shows "parseFloat t \<noteq> NaN"
proof -
  from assms obtain c cs where "t = c # cs" and "is_digit c"
    by (cases t) (auto simp: typed_text_def)
  then show ?thesis by (simp add: parseFloat_digit_start)
qed

lemma digit_nth: "k < 10 \<Longrightarrow> is_digit (''0123456789'' ! k)"
  unfolding is_digit_def by (rule nth_mem) simp

lemma decimal_digits_start:
  "decimal_digits n \<noteq> [] \<and> is_digit (hd (decimal_digits n))"
proof (induction n rule: decimal_digits.induct)
  case (1 n)
  show ?case
  proof (cases "n < 10")
    case True
    then have "nat n < 10" by simp
    then have "is_digit (''0123456789'' ! nat n)" by (rule digit_nth)
    with True show ?thesis by (subst (1 2) decimal_digits.simps) simp
  next
    case False
    with 1 have ih: "decimal_digits (n div 10) \<noteq> [] \<and>
        is_digit (hd (decimal_digits (n div 10)))"
      by simp
    with False show ?thesis by (subst (1 2) decimal_digits.simps) simp
  qed
qed

lemma digits_string_start:
  "digits_string x \<noteq> [] \<and> is_digit (hd (digits_string x))"
proof -
  obtain k s n where sh: "shortest x 1 = (k, s, n)"
    by (cases "shortest x 1") auto
  let ?ds = "decimal_digits s"
  have ds: "?ds \<noteq> []" "is_digit (hd ?ds)"
    using decimal_digits_start [of s] by simp_all
  have zero: "is_digit CHR ''0''" by (simp add: is_digit_def)
  have tk: "take m ?ds \<noteq> [] \<and> hd (take m ?ds) = hd ?ds" if "0 < m" for m
    using that ds(1) by (cases ?ds; cases m) auto
  show ?thesis
    unfolding digits_string_def sh Let_def
    using ds zero tk [of "nat n"] tk [of 1]
    by (auto simp del: decimal_digits.simps)
qed

lemma ToString_parses: "parseFloat (ToString r) \<noteq> NaN \<or> ToString r = ''NaN''"
proof (cases r)
  case NaN
  then show ?thesis by simp
next
  case (Infinity s)
  then show ?thesis by (cases s) (simp_all add: parseFloat_Infinity)
next
  case (Finite s m)
  obtain c cs where d: "digits_string m = c # cs" and c: "is_digit c"
    using digits_string_start [of m] by (cases "digits_string m") auto
  show ?thesis
  proof (cases "m = 0")
    case True
    with Finite show ?thesis by (simp add: parseFloat_0)
  next
    case False
    with Finite d c show ?thesis
      by (cases s) (simp_all add: parseFloat_digit_start parseFloat_minus_digit_start)
  qed
qed

lemma typed_text_no_letters:
  assumes "typed_text t"
  shows "t \<noteq> ''Infinity'' \<and> t \<noteq> ''-Infinity'' \<and> t \<noteq> ''NaN'' \<and> CHR ''e'' \<notin> set t"
proof -
  have i: "\<not> is_digit CHR ''I''" and m: "\<not> is_digit CHR ''-''" and n: "\<not> is_digit CHR ''N''"
    and e: "\<not> is_digit CHR ''e''"
    by (simp_all add: is_digit_def)
  from assms have hd: "is_digit (hd t)"
    and all: "\<forall>c \<in> set t. is_digit c \<or> c = CHR ''.''"
    by (simp_all add: typed_text_def list_all_iff)
  from hd i have "t \<noteq> ''Infinity''" by auto
  moreover from hd m have "t \<noteq> ''-Infinity''" by auto
  moreover from hd n have "t \<noteq> ''NaN''" by auto
  moreover from all e have "CHR ''e'' \<notin> set t" by auto
  ultimately show ?thesis by blast
qed

lemma decimal_points_member: "CHR ''.'' \<in> set t \<longleftrightarrow> decimal_points t \<noteq> 0"
  by (auto simp: decimal_points_def filter_empty_conv)

text \<open>
  Claim C6, as stated, fails: from the initial state the presses /, 0, = divide zero by
  zero and put the text of the result, "NaN", on the display. It is not made of digits and
  a decimal point, and \<open>parseFloat\<close> reads it as not-a-number. (The evaluator of this run
  is \<open>calculate\<close>.)
\<close>

theorem nan_on_display:
  "run calculate [ButtonDivide, Button0, ButtonEquals] =
     \<lparr>display = ''NaN'', previousValue = None, operator = None, waitingForOperand = True\<rparr> \<and>
   parseFloat ''NaN'' = NaN \<and> \<not> typed_text ''NaN''"
proof -
  have "run calculate [ButtonDivide, Button0, ButtonEquals] =
     \<lparr>display = ''NaN'', previousValue = None, operator = None, waitingForOperand = True\<rparr>"
    by (simp add: run_def initial_def handlers parseFloat_0)
  moreover have "\<not> typed_text ''NaN''"
    by (simp add: typed_text_def is_digit_def)
  ultimately show ?thesis using parseFloat_NaN by blast
qed

text \<open>
  Claim C6, amended. In every reachable state the display is read by \<open>parseFloat\<close> as a
  number (hand-typed text also with a trailing decimal point), except where it is the
  text "NaN"; that text is on the display only while the waiting flag is set. The display
  is hand-typed text (non-empty, beginning with a digit, made of digits and at most one
  decimal point) or, only while the flag is set, the text of a computed number.
\<close>

theorem display_text_origin:
  "(parseFloat (display (run calc bs)) \<noteq> NaN \<or> display (run calc bs) = ''NaN'') \<and>
   (display (run calc bs) = ''NaN'' \<longrightarrow> waitingForOperand (run calc bs)) \<and>
   (typed_text (display (run calc bs)) \<or>
      waitingForOperand (run calc bs) \<and> (\<exists>r. display (run calc bs) = ToString r))"
proof -
  let ?d = "display (run calc bs)"
  from inv_run [of calc bs]
  have typed: "\<not> waitingForOperand (run calc bs) \<longrightarrow> typed_text ?d"
    and origin: "typed_text ?d \<or> (\<exists>r. ?d = ToString r)"
    by (simp_all add: display_inv_def)
  from origin have parses: "parseFloat ?d \<noteq> NaN \<or> ?d = ''NaN''"
    using typed_text_parses [of ?d] ToString_parses by metis
  from typed typed_text_no_letters [of ?d]
  have nan: "?d = ''NaN'' \<longrightarrow> waitingForOperand (run calc bs)"
    by blast
  from parses nan typed origin show ?thesis by blast
qed

theorem display_text_origin_witness:
  "display (run calculate [Button3, ButtonDecimal]) = ''3.'' \<and>
   parseFloat (display (run calculate [Button3, ButtonDecimal])) \<noteq> NaN \<and>
   display (run calculate [ButtonDivide, Button0, ButtonEquals]) = ''NaN'' \<and>
   waitingForOperand (run calculate [ButtonDivide, Button0, ButtonEquals])"
proof -
  have a: "display (run calculate [Button3, ButtonDecimal]) = ''3.''"
    by (simp add: run_def initial_def handlers)
  have b: "display (run calculate [ButtonDivide, Button0, ButtonEquals]) = ''NaN''"
    by (simp add: run_def initial_def handlers parseFloat_0)
  have c: "(''3.'' :: string) \<noteq> ''NaN''"
    by simp
  from a b c show ?thesis
    using display_text_origin [of calculate "[Button3, ButtonDecimal]"]
      display_text_origin [of calculate "[ButtonDivide, Button0, ButtonEquals]"]
    by metis
qed

section \<open>Decimal entry\<close>

text \<open>
  Claim C7. Decimal entry with the waiting flag set makes the display "0." and clears the
  flag; otherwise a display that already has a decimal point is left alone and any other
  display gets "." appended. So a second decimal entry changes nothing after the first,
  and in a reachable state the display then has exactly one decimal point.
\<close>

theorem decimal_rule:
  "(waitingForOperand s \<longrightarrow>
      handleDecimal s = s\<lparr>display := ''0.'', waitingForOperand := False\<rparr>) \<and>
   (\<not> waitingForOperand s \<and> CHR ''.'' \<in> set (display s) \<longrightarrow> handleDecimal s = s) \<and>
   (\<not> waitingForOperand s \<and> CHR ''.'' \<notin> set (display s) \<longrightarrow>
      handleDecimal s = s\<lparr>display := display s @ ''.''\<rparr>) \<and>
   handleDecimal (handleDecimal s) = handleDecimal s \<and>
   decimal_points (display (handleDecimal (handleDecimal (run calc bs)))) = 1"
proof -
  have rule: "(waitingForOperand s \<longrightarrow>
      handleDecimal s = s\<lparr>display := ''0.'', waitingForOperand := False\<rparr>) \<and>
   (\<not> waitingForOperand s \<and> CHR ''.'' \<in> set (display s) \<longrightarrow> handleDecimal s = s) \<and>
   (\<not> waitingForOperand s \<and> CHR ''.'' \<notin> set (display s) \<longrightarrow>
      handleDecimal s = s\<lparr>display := display s @ ''.''\<rparr>) \<and>
   handleDecimal (handleDecimal s) = handleDecimal s" for s
    by (auto simp: handleDecimal_def includes_dot_def Let_def)
  let ?r = "run calc bs"
  have "decimal_points (display (handleDecimal ?r)) = 1"
  proof (cases "waitingForOperand ?r")
    case True
    then show ?thesis by (simp add: handleDecimal_def decimal_points_def)
  next
    case False
    with inv_run [of calc bs] have le: "decimal_points (display ?r) \<le> 1"
      by (simp add: display_inv_def typed_text_def)
    show ?thesis
    proof (cases "CHR ''.'' \<in> set (display ?r)")
      case True
      with decimal_points_member [of "display ?r"] le
      have "decimal_points (display ?r) = 1" by simp
      with True False show ?thesis
        by (simp add: handleDecimal_def includes_dot_def Let_def)
    next
      case no: False
      with decimal_points_member [of "display ?r"]
      have "decimal_points (display ?r) = 0" by simp
      with no False show ?thesis
        by (simp add: handleDecimal_def includes_dot_def Let_def decimal_points_def)
    qed
  qed
  with rule [of s] rule [of ?r] show ?thesis by simp
qed

theorem decimal_rule_witness:
  "handleDecimal \<lparr>display = ''8'', previousValue = Some (Finite False 8),
      operator = Some Add, waitingForOperand = True\<rparr> =
     \<lparr>display = ''0.'', previousValue = Some (Finite False 8), operator = Some Add,
      waitingForOperand = False\<rparr> \<and>
   handleDecimal (initial\<lparr>display := ''3.1''\<rparr>) = initial\<lparr>display := ''3.1''\<rparr> \<and>
   handleDecimal (initial\<lparr>display := ''3''\<rparr>) = initial\<lparr>display := ''3.''\<rparr> \<and>
   decimal_points (display (handleDecimal (handleDecimal (run calculate [Button3])))) = 1"
  using
    decimal_rule [where calc = calculate and bs = "[Button3]" and s = "\<lparr>display = ''8'',
      previousValue = Some (Finite False 8), operator = Some Add, waitingForOperand = True\<rparr>"]
    decimal_rule [where calc = calculate and bs = "[Button3]"
      and s = "initial\<lparr>display := ''3.1''\<rparr>"]
    decimal_rule [where calc = calculate and bs = "[Button3]"
      and s = "initial\<lparr>display := ''3''\<rparr>"]
  by (simp add: initial_def)

section \<open>Backspace\<close>

text \<open>
  Claim C8. Backspace leaves the whole state unchanged while waitingForOperand is true.
  Otherwise it changes only the display: the last character is removed, and a display that
  would become empty becomes "0"; so a one-character display always becomes "0".
\<close>

theorem backspace_rule:
  "(waitingForOperand s \<longrightarrow> handleBackspace s = s) \<and>
   (\<not> waitingForOperand s \<longrightarrow>
      handleBackspace s =
        s\<lparr>display := (if butlast (display s) = [] then ''0'' else butlast (display s))\<rparr>) \<and>
   (\<not> waitingForOperand s \<and> length (display s) = 1 \<longrightarrow>
      display (handleBackspace s) = ''0'') \<and>
   (\<not> waitingForOperand s \<longrightarrow> display (handleBackspace s) \<noteq> [])"
proof -
  have one: "butlast t = []" if "length t = 1" for t :: string
    using that by (cases t) auto
  show ?thesis
    by (auto simp: handleBackspace_def slice_0_minus1_def Let_def one)
qed

theorem backspace_rule_witness:
  "handleBackspace \<lparr>display = ''8'', previousValue = Some (Finite False 8),
      operator = Some Add, waitingForOperand = True\<rparr> =
     \<lparr>display = ''8'', previousValue = Some (Finite False 8),
      operator = Some Add, waitingForOperand = True\<rparr> \<and>
   handleBackspace \<lparr>display = ''12'', previousValue = None, operator = None,
      waitingForOperand = False\<rparr> =
     \<lparr>display = ''1'', previousValue = None, operator = None, waitingForOperand = False\<rparr> \<and>
   display (handleBackspace \<lparr>display = ''7'', previousValue = None, operator = None,
      waitingForOperand = False\<rparr>) = ''0''"
  using backspace_rule [of "\<lparr>display = ''8'', previousValue = Some (Finite False 8),
      operator = Some Add, waitingForOperand = True\<rparr>"]
    backspace_rule [of "\<lparr>display = ''12'', previousValue = None, operator = None,
      waitingForOperand = False\<rparr>"]
    backspace_rule [of "\<lparr>display = ''7'', previousValue = None, operator = None,
      waitingForOperand = False\<rparr>"]
  by simp

section \<open>Keyboard and buttons\<close>

lemma handleKeyDown_table:
  "\<forall>(k, c) \<in> set keyboard_table. handleKeyDown calc k s = onClick' calc c s"
  unfolding keyboard_table_def by (simp add: handleKeyDown_def string_le_def)

text \<open>
  Claim C9. For every state and every key of the keyboard table (the digits, +, -, *, /,
  Enter and =, . and the comma, Backspace and Delete, Escape) the keydown listener makes
  the same transition as a click on the button of that operation.
\<close>

theorem keyboard_matches_buttons:
  assumes "(key, b) \<in> set keyboard_table"
  shows "handleKeyDown calc key s = onClick' calc b s"
  using assms handleKeyDown_table [of calc s] by blast

theorem keyboard_matches_buttons_witness:
  "(''Enter'', ButtonEquals) \<in> set keyboard_table \<and>
   handleKeyDown calculate ''Enter''
     \<lparr>display = ''3'', previousValue = Some (Finite False 5), operator = Some Add,
      waitingForOperand = False, lastPressedButton = Some ''number-3''\<rparr> =
   onClick' calculate ButtonEquals
     \<lparr>display = ''3'', previousValue = Some (Finite False 5), operator = Some Add,
      waitingForOperand = False, lastPressedButton = Some ''number-3''\<rparr>"
proof -
  have k: "(''Enter'', ButtonEquals) \<in> set keyboard_table"
    by (simp add: keyboard_table_def)
  from k keyboard_matches_buttons [OF k] show ?thesis by blast
qed

section \<open>The two revisions on the four calculator cells\<close>

text \<open>
  Forgetting the fifth cell, each handler of the revision with keyboard input is the
  handler of the same name above; so a click there, and a key of the table, moves the four
  calculator cells exactly as the button does in the component without the listener.
\<close>

lemmas handlers' = handleNumber'_def handleOperator'_def handleEquals'_def handleClear'_def
  handleDecimal'_def handleBackspace'_def

lemma truncate_handlers:
  "calc_state.truncate (handleNumber' d s) = handleNumber d (calc_state.truncate s)"
  "calc_state.truncate (handleOperator' calc op s) =
     handleOperator calc op (calc_state.truncate s)"
  "calc_state.truncate (handleEquals' calc s) = handleEquals calc (calc_state.truncate s)"
  "calc_state.truncate (handleClear' s) = handleClear (calc_state.truncate s)"
  "calc_state.truncate (handleDecimal' s) = handleDecimal (calc_state.truncate s)"
  "calc_state.truncate (handleBackspace' s) = handleBackspace (calc_state.truncate s)"
  by (simp_all add: handlers' handlers calc_state.truncate_def)

lemma truncate_onClick':
  "calc_state.truncate (onClick' calc b s) = onClick calc b (calc_state.truncate s)"
  by (cases b) (simp_all add: truncate_handlers)

lemma truncate_handleKeyDown:
  assumes "(key, b) \<in> set keyboard_table"
  shows "calc_state.truncate (handleKeyDown calc key s) = onClick calc b (calc_state.truncate s)"
proof -
  from assms handleKeyDown_table [of calc s]
  have "handleKeyDown calc key s = onClick' calc b s" by blast
  then show ?thesis by (simp add: truncate_onClick')
qed

lemma truncate_initial': "calc_state.truncate initial' = initial"
  by (simp add: initial'_def initial_def calc_state.truncate_def)

section \<open>Typed text and computed text\<close>

text \<open>
  Claim C10. In every reachable state with the waiting flag clear the display is
  non-empty and consists of digits and at most one decimal point; a display "Infinity",
  "-Infinity" or "NaN", or one with the exponent letter, occurs only with the flag set.
\<close>

theorem typed_while_not_waiting:
  "(\<not> waitingForOperand (run calc bs) \<longrightarrow>
      display (run calc bs) \<noteq> [] \<and>
      list_all (\<lambda>c. is_digit c \<or> c = CHR ''.'') (display (run calc bs)) \<and>
      decimal_points (display (run calc bs)) \<le> 1) \<and>
   (display (run calc bs) = ''Infinity'' \<or> display (run calc bs) = ''-Infinity'' \<or>
    display (run calc bs) = ''NaN'' \<or> CHR ''e'' \<in> set (display (run calc bs)) \<longrightarrow>
      waitingForOperand (run calc bs))"
proof -
  let ?r = "run calc bs"
  have typed: "typed_text (display ?r)" if "\<not> waitingForOperand ?r"
    using that inv_run [of calc bs] by (simp add: display_inv_def)
  have first: "display ?r \<noteq> [] \<and>
      list_all (\<lambda>c. is_digit c \<or> c = CHR ''.'') (display ?r) \<and>
      decimal_points (display ?r) \<le> 1" if "\<not> waitingForOperand ?r"
    using typed [OF that] by (simp add: typed_text_def)
  have second: "waitingForOperand ?r"
    if "display ?r = ''Infinity'' \<or> display ?r = ''-Infinity'' \<or>
        display ?r = ''NaN'' \<or> CHR ''e'' \<in> set (display ?r)"
  proof (rule ccontr)
    assume "\<not> waitingForOperand ?r"
    then have "typed_text (display ?r)" by (rule typed)
    from typed_text_no_letters [OF this] that show False by blast
  qed
  from first second show ?thesis by blast
qed

theorem typed_while_not_waiting_witness:
  "\<not> waitingForOperand (run calculate [Button3, ButtonDecimal, Button1]) \<and>
   display (run calculate [Button3, ButtonDecimal, Button1]) = ''3.1'' \<and>
   decimal_points (display (run calculate [Button3, ButtonDecimal, Button1])) \<le> 1 \<and>
   display (run calculate [ButtonDivide, Button0, ButtonEquals]) = ''NaN'' \<and>
   waitingForOperand (run calculate [ButtonDivide, Button0, ButtonEquals])"
proof -
  have a: "\<not> waitingForOperand (run calculate [Button3, ButtonDecimal, Button1])"
    by (simp add: run_def initial_def handlers)
  have b: "display (run calculate [Button3, ButtonDecimal, Button1]) = ''3.1''"
    by (simp add: run_def initial_def handlers)
  have c: "display (run calculate [ButtonDivide, Button0, ButtonEquals]) = ''NaN''"
    by (simp add: run_def initial_def handlers parseFloat_0)
  from a b c show ?thesis
    using typed_while_not_waiting [of calculate "[Button3, ButtonDecimal, Button1]"]
      typed_while_not_waiting [of calculate "[ButtonDivide, Button0, ButtonEquals]"]
    by blast
qed

end
